theory Spec2Isabelle
  imports Main "HOL-Library.Word"
begin

section \<open>The backend proxy of the multimodal agent (backend/main.py)\<close>

text \<open>
  The proxy has three JSON handlers: \<open>health\<close>, \<open>generate\<close> and \<open>colab_status\<close>.
  They read one configuration string, \<open>COLAB_API_URL\<close>, and the last two talk to the
  Colab model server through an \<open>httpx.AsyncClient\<close>. The handlers are embedded as
  functions of that string, of the behaviour of the model server, and of the list of
  outbound calls issued so far; they return what the handler returns or raises, and
  the list of outbound calls afterwards.
\<close>

subsection \<open>Values\<close>

text \<open>
  The Python values that travel as JSON: \<open>None\<close>, \<open>bool\<close>, \<open>int\<close>, \<open>float\<close> (its 64
  bits, IEEE 754 binary64), \<open>str\<close> (its UTF-8 bytes), \<open>list\<close>, and \<open>dict\<close> with its keys
  in insertion order.
\<close>

datatype json =
    JNull
  | JBool bool
  | JInt int
  | JFloat "64 word"
  | JStr string
  | JArr "json list"
  | JObj "(string \<times> json) list"

text \<open>
  \<open>math.isfinite\<close>: a float is \<open>nan\<close>, \<open>inf\<close> or \<open>-inf\<close> exactly when the eleven bits of
  its exponent are all set. \<open>json.loads\<close>, which \<open>response.json()\<close> calls, produces
  such floats from \<open>NaN\<close>, \<open>Infinity\<close>, \<open>-Infinity\<close> and from literals like \<open>1e400\<close>.
\<close>

definition isfinite :: "64 word \<Rightarrow> bool" where
  "isfinite w = (take_bit 11 (drop_bit 52 w) \<noteq> 2047)"

text \<open>
  The values \<open>json.dumps(..., allow_nan=False)\<close> accepts: those that hold no float
  that is not finite. On the others it raises \<open>ValueError\<close>.
\<close>

fun json_compliant :: "json \<Rightarrow> bool" where
  "json_compliant (JFloat w) = isfinite w"
| "json_compliant (JArr vs) = list_all json_compliant vs"
| "json_compliant (JObj kvs) = list_all (\<lambda>kv. json_compliant (snd kv)) kvs"
| "json_compliant _ = True"

text \<open>\<open>class PromptRequest(BaseModel): prompt: str\<close>\<close>

record PromptRequest =
  prompt :: string

text \<open>Truth value of a Python string, as in \<open>if not COLAB_API_URL\<close> and \<open>bool(COLAB_API_URL)\<close>.\<close>

definition bool_of_str :: "string \<Rightarrow> bool" where
  "bool_of_str s = (0 < length s)"

subsection \<open>The HTTP client\<close>

text \<open>
  An outbound call is one invocation of \<open>client.post\<close> or \<open>client.get\<close>: its URL, the
  \<open>json=\<close> payload if any, and the timeout (in seconds) of the client that issues it.
\<close>

datatype http_method = GET | POST

record http_call =
  call_method :: http_method
  call_url :: string
  call_json :: "json option"
  call_timeout :: nat

text \<open>
  What the try blocks of the handlers can raise: the exceptions of httpx that sending a
  request raises, the \<open>HTTPStatusError\<close> of \<open>raise_for_status\<close>, which carries the
  response, and the decoding errors of \<open>response.json()\<close>. Each carries its \<open>str()\<close>.
  A response is its status code, the message \<open>raise_for_status\<close> gives its
  \<open>HTTPStatusError\<close>, and what \<open>response.json()\<close> returns or raises.
\<close>

datatype pyexc =
    ConnectError string
  | ReadError string
  | WriteError string
  | CloseError string
  | ConnectTimeout string
  | ReadTimeout string
  | WriteTimeout string
  | PoolTimeout string
  | LocalProtocolError string
  | RemoteProtocolError string
  | ProxyError string
  | UnsupportedProtocol string
  | DecodingError string
  | TooManyRedirects string
  | InvalidURL string
  | HTTPStatusError string response
  | JSONDecodeError string
  | UnicodeDecodeError string
and response =
    Response (status_code: int) (status_error_text: string) (json_result: "pyexc + json")

text \<open>\<open>str(e)\<close>\<close>

fun str :: "pyexc \<Rightarrow> string" where
  "str (ConnectError m) = m"
| "str (ReadError m) = m"
| "str (WriteError m) = m"
| "str (CloseError m) = m"
| "str (ConnectTimeout m) = m"
| "str (ReadTimeout m) = m"
| "str (WriteTimeout m) = m"
| "str (PoolTimeout m) = m"
| "str (LocalProtocolError m) = m"
| "str (RemoteProtocolError m) = m"
| "str (ProxyError m) = m"
| "str (UnsupportedProtocol m) = m"
| "str (DecodingError m) = m"
| "str (TooManyRedirects m) = m"
| "str (InvalidURL m) = m"
| "str (HTTPStatusError m r) = m"
| "str (JSONDecodeError m) = m"
| "str (UnicodeDecodeError m) = m"

text \<open>
  The class tests of the except clauses. In httpx \<open>ConnectError\<close> has no subclass, and
  the subclasses of \<open>TimeoutException\<close> are \<open>ConnectTimeout\<close>, \<open>ReadTimeout\<close>,
  \<open>WriteTimeout\<close> and \<open>PoolTimeout\<close>.
\<close>

fun isinstance_ConnectError :: "pyexc \<Rightarrow> bool" where
  "isinstance_ConnectError (ConnectError m) = True"
| "isinstance_ConnectError _ = False"

fun isinstance_TimeoutException :: "pyexc \<Rightarrow> bool" where
  "isinstance_TimeoutException (ConnectTimeout m) = True"
| "isinstance_TimeoutException (ReadTimeout m) = True"
| "isinstance_TimeoutException (WriteTimeout m) = True"
| "isinstance_TimeoutException (PoolTimeout m) = True"
| "isinstance_TimeoutException _ = False"

text \<open>
  \<open>response.raise_for_status()\<close> of httpx: returns the response when its status code
  is a success code (200 to 299), raises \<open>HTTPStatusError\<close> otherwise.
\<close>

definition is_success :: "int \<Rightarrow> bool" where
  "is_success code = (200 \<le> code \<and> code \<le> 299)"

definition raise_for_status :: "response \<Rightarrow> pyexc + response" where
  "raise_for_status r =
     (if is_success (status_code r) then Inr r
      else Inl (HTTPStatusError (status_error_text r) r))"

text \<open>
  The model server, seen from the proxy: what a call returns or raises, given the
  calls issued before it. \<open>client.post\<close> and \<open>client.get\<close> issue one call each and
  record it.
\<close>

type_synonym upstream = "http_call list \<Rightarrow> http_call \<Rightarrow> pyexc + response"

definition client_post ::
  "upstream \<Rightarrow> nat \<Rightarrow> string \<Rightarrow> json \<Rightarrow> http_call list \<Rightarrow> (pyexc + response) \<times> http_call list" where
  "client_post net secs u payload log =
     (let c = \<lparr>call_method = POST, call_url = u, call_json = Some payload, call_timeout = secs\<rparr>
      in (net log c, log @ [c]))"

definition client_get ::
  "upstream \<Rightarrow> nat \<Rightarrow> string \<Rightarrow> http_call list \<Rightarrow> (pyexc + response) \<times> http_call list" where
  "client_get net secs u log =
     (let c = \<lparr>call_method = GET, call_url = u, call_json = None, call_timeout = secs\<rparr>
      in (net log c, log @ [c]))"

text \<open>A model server that answers every call the same way.\<close>

definition stub_upstream :: "pyexc + response \<Rightarrow> upstream" where
  "stub_upstream outcome log c = outcome"

subsection \<open>The handlers\<close>

text \<open>
  What leaves a handler other than a returned value: the \<open>HTTPException\<close> it raises
  (status code and detail), or an exception of the try block that no except clause
  caught.
\<close>

datatype fault =
    HTTPException int string
  | Unhandled pyexc

text \<open>
  The status code FastAPI answers with. A returned value is rendered by
  \<open>JSONResponse\<close> with \<open>json.dumps(..., allow_nan=False)\<close>: the answer is 200 when the
  value is accepted and 500 when the rendering raises. An \<open>HTTPException\<close> is answered
  with its status code, any other exception with 500. The limits of the interpreter
  (recursion depth, memory) are not part of the model.
\<close>

fun http_status :: "fault + json \<Rightarrow> int" where
  "http_status (Inr v) = (if json_compliant v then 200 else 500)"
| "http_status (Inl (HTTPException code detail)) = code"
| "http_status (Inl (Unhandled e)) = 500"

text \<open>\<open>GET /health\<close>\<close>

definition health :: "string \<Rightarrow> json" where
  "health COLAB_API_URL =
     JObj [(''status'', JStr ''ok''),
           (''colab_url_configured'', JBool (bool_of_str COLAB_API_URL))]"

text \<open>\<open>POST /api/generate\<close>\<close>

definition generate ::
  "string \<Rightarrow> upstream \<Rightarrow> PromptRequest \<Rightarrow> http_call list \<Rightarrow> (fault + json) \<times> http_call list" where
  "generate COLAB_API_URL net request log =
     (if \<not> bool_of_str COLAB_API_URL then
        (Inl (HTTPException 503
                ''COLAB_API_URL not set. Please add it to your .env file.''), log)
      else
        (case client_post net 300 (COLAB_API_URL @ ''/generate'')
                (JObj [(''prompt'', JStr (prompt request))]) log of
           (sent, log') \<Rightarrow>
             (case (case sent of
                      Inl e \<Rightarrow> Inl e
                    | Inr response \<Rightarrow>
                        (case raise_for_status response of
                           Inl e \<Rightarrow> Inl e
                         | Inr ok \<Rightarrow> json_result response)) of
                Inr v \<Rightarrow> (Inr v, log')
              | Inl e \<Rightarrow>
                  if isinstance_ConnectError e then
                    (Inl (HTTPException 503
                            ''Cannot connect to Colab model server. Make sure the Colab notebook is running.''),
                     log')
                  else if isinstance_TimeoutException e then
                    (Inl (HTTPException 504
                            ''Model server timed out. Generation can take 1-3 minutes, please try again.''),
                     log')
                  else
                    (case e of
                       HTTPStatusError m r \<Rightarrow>
                         (Inl (HTTPException (status_code r) (str e)), log')
                     | _ \<Rightarrow> (Inl (Unhandled e), log')))))"

text \<open>\<open>GET /api/colab-status\<close>\<close>

definition colab_status ::
  "string \<Rightarrow> upstream \<Rightarrow> http_call list \<Rightarrow> (fault + json) \<times> http_call list" where
  "colab_status COLAB_API_URL net log =
     (if \<not> bool_of_str COLAB_API_URL then
        (Inr (JObj [(''online'', JBool False),
                    (''reason'', JStr ''COLAB_API_URL not configured'')]), log)
      else
        (case client_get net 10 (COLAB_API_URL @ ''/health'') log of
           (sent, log') \<Rightarrow>
             (case (case sent of
                      Inl e \<Rightarrow> Inl e
                    | Inr response \<Rightarrow> json_result response) of
                Inr v \<Rightarrow> (Inr (JObj [(''online'', JBool True), (''detail'', v)]), log')
              | Inl e \<Rightarrow>
                  (Inr (JObj [(''online'', JBool False), (''reason'', JStr (str e))]), log'))))"

text \<open>The two calls the handlers issue, named for the statements below.\<close>

abbreviation generate_call :: "string \<Rightarrow> PromptRequest \<Rightarrow> http_call" where
  "generate_call COLAB_API_URL request \<equiv>
     \<lparr>call_method = POST, call_url = COLAB_API_URL @ ''/generate'',
      call_json = Some (JObj [(''prompt'', JStr (prompt request))]), call_timeout = 300\<rparr>"


section \<open>Properties\<close>

lemma bool_of_str_iff: "bool_of_str s \<longleftrightarrow> s \<noteq> []"
  by (simp add: bool_of_str_def)

text \<open>
  C9. \<open>GET /health\<close> always succeeds and returns exactly
  \<open>{status: "ok", colab_url_configured: b}\<close>, where \<open>b\<close> is true if and only if the
  upstream base address is non-empty: the handler returns a value for every
  configuration, FastAPI answers it with status 200, and the value is that object
  for exactly one \<open>b\<close>, the one that says whether the address is non-empty.
\<close>

theorem health_ok:
  "http_status (Inr (health COLAB_API_URL)) = 200 \<and>
   (health COLAB_API_URL =
      JObj [(''status'', JStr ''ok''), (''colab_url_configured'', JBool b)]
    \<longleftrightarrow> (b \<longleftrightarrow> COLAB_API_URL \<noteq> ''''))"
  by (auto simp: health_def bool_of_str_iff)

text \<open>
  C2. For every prompt, if the upstream base address is unconfigured (empty),
  Generate fails with NotConfigured, HTTP status 503, and makes no network attempt:
  whatever the model server would do, the handler raises the \<open>HTTPException\<close> with
  status 503 of its first lines and the list of outbound calls is unchanged.
\<close>

theorem generate_not_configured:
  "generate '''' net request log =
     (Inl (HTTPException 503 ''COLAB_API_URL not set. Please add it to your .env file.''), log)
   \<and> http_status (fst (generate '''' net request log)) = 503"
  by (simp add: generate_def bool_of_str_def)




text \<open>
  C3. For every configured upstream and every prompt: if the outbound connection
  cannot be established (\<open>client.post\<close> raises \<open>httpx.ConnectError\<close>), Generate fails
  with Unreachable, HTTP status 503; if the call exceeds the timeout (\<open>client.post\<close>
  raises one of the timeout exceptions of httpx), Generate fails with Timeout, HTTP
  status 504.
\<close>

theorem generate_transport_failures:
  assumes "COLAB_API_URL \<noteq> ''''"
  shows "(net log (generate_call COLAB_API_URL request) = Inl (ConnectError m) \<longrightarrow>
            fst (generate COLAB_API_URL net request log) =
              Inl (HTTPException 503
                ''Cannot connect to Colab model server. Make sure the Colab notebook is running.'')
            \<and> http_status (fst (generate COLAB_API_URL net request log)) = 503)
       \<and> (net log (generate_call COLAB_API_URL request)
              \<in> {Inl (ReadTimeout m), Inl (WriteTimeout m), Inl (PoolTimeout m),
                  Inl (ConnectTimeout m)} \<longrightarrow>
            fst (generate COLAB_API_URL net request log) =
              Inl (HTTPException 504
                ''Model server timed out. Generation can take 1-3 minutes, please try again.'')
            \<and> http_status (fst (generate COLAB_API_URL net request log)) = 504)"
  using assms
  by (auto simp: generate_def client_post_def bool_of_str_def)

theorem generate_transport_failures_witness:
  "http_status (fst (generate ''http://colab'' (stub_upstream (Inl (ConnectError ''refused'')))
                      \<lparr>prompt = ''a cat''\<rparr> [])) = 503
   \<and> http_status (fst (generate ''http://colab'' (stub_upstream (Inl (ReadTimeout '''')))
                      \<lparr>prompt = ''a cat''\<rparr> [])) = 504"
  using generate_transport_failures
    [where COLAB_API_URL = "''http://colab''"
       and net = "stub_upstream (Inl (ConnectError ''refused''))"
       and log = "[]" and request = "\<lparr>prompt = ''a cat''\<rparr>" and m = "''refused''"]
    generate_transport_failures
    [where COLAB_API_URL = "''http://colab''"
       and net = "stub_upstream (Inl (ReadTimeout ''''))"
       and log = "[]" and request = "\<lparr>prompt = ''a cat''\<rparr>" and m = "''''"]
  by (simp add: stub_upstream_def)

text \<open>
  C4. For every configured upstream and every prompt, if the upstream responds with a
  non-2xx status code \<open>S\<close>, Generate fails with UpstreamError whose client-facing
  status code is exactly \<open>S\<close>: the handler raises an \<open>HTTPException\<close> with the
  response's status code and the text of the \<open>HTTPStatusError\<close>.
\<close>

theorem generate_upstream_error:
  assumes "COLAB_API_URL \<noteq> ''''"
    and "net log (generate_call COLAB_API_URL request) = Inr response"
    and "status_code response < 200 \<or> 299 < status_code response"
  shows "fst (generate COLAB_API_URL net request log) =
           Inl (HTTPException (status_code response) (status_error_text response))
    \<and> http_status (fst (generate COLAB_API_URL net request log)) = status_code response"
  using assms
  by (auto simp: generate_def client_post_def bool_of_str_def raise_for_status_def is_success_def)

theorem generate_upstream_error_witness:
  "fst (generate ''http://colab''
          (stub_upstream (Inr (Response 500 ''Server error'' (Inr JNull))))
          \<lparr>prompt = ''a cat''\<rparr> [])
     = Inl (HTTPException 500 ''Server error'')"
  using generate_upstream_error
    [where COLAB_API_URL = "''http://colab''"
       and net = "stub_upstream (Inr (Response 500 ''Server error'' (Inr JNull)))"
       and log = "[]" and request = "\<lparr>prompt = ''a cat''\<rparr>"
       and response = "Response 500 ''Server error'' (Inr JNull)"]
  by (simp add: stub_upstream_def)

text \<open>
  C7. For a configured upstream, a timeout while establishing the connection
  (\<open>httpx.ConnectTimeout\<close>, which the clause for \<open>TimeoutException\<close> catches and the
  clause for \<open>ConnectError\<close> does not) is reported by Generate as Timeout with HTTP
  status 504, not as Unreachable with HTTP status 503.
\<close>

theorem generate_connect_timeout:
  assumes "COLAB_API_URL \<noteq> ''''"
    and "net log (generate_call COLAB_API_URL request) = Inl (ConnectTimeout m)"
  shows "fst (generate COLAB_API_URL net request log) =
           Inl (HTTPException 504
             ''Model server timed out. Generation can take 1-3 minutes, please try again.'')
    \<and> http_status (fst (generate COLAB_API_URL net request log)) = 504
    \<and> fst (generate COLAB_API_URL net request log) \<noteq>
           Inl (HTTPException 503
             ''Cannot connect to Colab model server. Make sure the Colab notebook is running.'')
    \<and> isinstance_TimeoutException (ConnectTimeout m)
    \<and> \<not> isinstance_ConnectError (ConnectTimeout m)"
  using assms
  by (simp add: generate_def client_post_def bool_of_str_def)

theorem generate_connect_timeout_witness:
  "fst (generate ''http://colab'' (stub_upstream (Inl (ConnectTimeout '''')))
          \<lparr>prompt = ''a cat''\<rparr> [])
     = Inl (HTTPException 504
             ''Model server timed out. Generation can take 1-3 minutes, please try again.'')"
  using generate_connect_timeout
    [where COLAB_API_URL = "''http://colab''"
       and net = "stub_upstream (Inl (ConnectTimeout ''''))"
       and log = "[]" and request = "\<lparr>prompt = ''a cat''\<rparr>" and m = "''''"]
  by (simp add: stub_upstream_def)

text \<open>
  C8. For a configured upstream, if the generation endpoint responds 2xx with a body
  that is not valid JSON (\<open>response.json()\<close> raises \<open>JSONDecodeError\<close>), Generate
  returns no GenerationResult and raises no \<open>HTTPException\<close>, so none of the four
  documented error kinds: the decoding error leaves the handler uncaught, and FastAPI
  answers with status 500.
\<close>

theorem generate_invalid_json_unhandled:
  assumes "COLAB_API_URL \<noteq> ''''"
    and "net log (generate_call COLAB_API_URL request) = Inr response"
    and "200 \<le> status_code response" and "status_code response \<le> 299"
    and "json_result response = Inl (JSONDecodeError m)"
  shows "fst (generate COLAB_API_URL net request log) = Inl (Unhandled (JSONDecodeError m))
    \<and> (\<forall>v. fst (generate COLAB_API_URL net request log) \<noteq> Inr v)
    \<and> (\<forall>code detail.
          fst (generate COLAB_API_URL net request log) \<noteq> Inl (HTTPException code detail))
    \<and> http_status (fst (generate COLAB_API_URL net request log)) = 500"
  using assms
  by (simp add: generate_def client_post_def bool_of_str_def raise_for_status_def is_success_def)

theorem generate_invalid_json_unhandled_witness:
  "fst (generate ''http://colab''
          (stub_upstream (Inr (Response 200 '''' (Inl (JSONDecodeError ''Expecting value'')))))
          \<lparr>prompt = ''a cat''\<rparr> [])
     = Inl (Unhandled (JSONDecodeError ''Expecting value''))"
  using generate_invalid_json_unhandled
    [where COLAB_API_URL = "''http://colab''"
       and net = "stub_upstream (Inr (Response 200 '''' (Inl (JSONDecodeError ''Expecting value''))))"
       and log = "[]" and request = "\<lparr>prompt = ''a cat''\<rparr>"
       and response = "Response 200 '''' (Inl (JSONDecodeError ''Expecting value''))"
       and m = "''Expecting value''"]
  by (simp add: stub_upstream_def)

text \<open>
  C10. For every configured upstream, each invocation of Generate issues exactly one
  outbound call, whatever its outcome (no retries): a POST to the upstream's
  generation endpoint whose payload is an object with the prompt as its sole field.
\<close>

theorem generate_single_call:
  assumes "COLAB_API_URL \<noteq> ''''"
  shows "snd (generate COLAB_API_URL net request log) =
           log @ [\<lparr>call_method = POST, call_url = COLAB_API_URL @ ''/generate'',
                   call_json = Some (JObj [(''prompt'', JStr (prompt request))]),
                   call_timeout = 300\<rparr>]
    \<and> length (snd (generate COLAB_API_URL net request log)) = Suc (length log)"
proof -
  let ?c = "generate_call COLAB_API_URL request"
  have configured: "bool_of_str COLAB_API_URL"
    using assms by (simp add: bool_of_str_def)
  have "snd (generate COLAB_API_URL net request log) = log @ [?c]"
  proof (cases "net log ?c")
    case (Inl e)
    then show ?thesis
      using configured
      by (cases e) (simp_all add: generate_def client_post_def)
  next
    case (Inr response)
    then show ?thesis
      using configured
      by (cases "json_result response")
        (simp_all add: generate_def client_post_def raise_for_status_def split: pyexc.splits)
  qed
  then show ?thesis by simp
qed

theorem generate_single_call_witness:
  "snd (generate ''http://colab'' (stub_upstream (Inl (ReadTimeout '''')))
          \<lparr>prompt = ''a cat''\<rparr> [])
     = [\<lparr>call_method = POST, call_url = ''http://colab/generate'',
          call_json = Some (JObj [(''prompt'', JStr ''a cat'')]), call_timeout = 300\<rparr>]"
  using generate_single_call
    [where COLAB_API_URL = "''http://colab''"
       and net = "stub_upstream (Inl (ReadTimeout ''''))"
       and log = "[]" and request = "\<lparr>prompt = ''a cat''\<rparr>"]
  by simp

text \<open>
  C6. If the upstream base address is unconfigured, CheckStatus makes no network
  attempt and returns \<open>{online: false, reason: r}\<close>; the reason the handler gives is
  the text \<open>COLAB_API_URL not configured\<close>.
\<close>

theorem colab_status_not_configured:
  "colab_status '''' net log =
     (Inr (JObj [(''online'', JBool False),
                 (''reason'', JStr ''COLAB_API_URL not configured'')]), log)"
  by (simp add: colab_status_def bool_of_str_def)

text \<open>
  The reason is not the bare text \<open>not configured\<close>: the handler prefixes the name of
  the configuration variable.
\<close>

theorem colab_status_not_configured_counterexample:
  "fst (colab_status '''' (stub_upstream (Inl (ConnectError ''refused''))) []) \<noteq>
     Inr (JObj [(''online'', JBool False), (''reason'', JStr ''not configured'')])"
  by (simp add: colab_status_def bool_of_str_def)




end
